theory Spec2Isabelle
  imports Main "HOL-Library.Sublist"
begin

section \<open>String interpolation of the build number\<close>

text \<open>
  The Jenkinsfile builds the container name and the port by interpolating \<open>BUILD_NUMBER\<close>
  into double-quoted strings. The build number is a natural number that Jenkins hands over
  in decimal notation, without leading zeros; \<open>decimal\<close> is that rendering.
\<close>

definition digit_char :: "nat \<Rightarrow> char" where
  "digit_char d = ''0123456789'' ! d"

fun decimal :: "nat \<Rightarrow> string" where
  "decimal n = (if n < 10 then [digit_char n] else decimal (n div 10) @ [digit_char (n mod 10)])"

declare decimal.simps [simp del]

text \<open>
  The number a tool reads out of a string of decimal digits, as \<open>docker\<close> and \<open>curl\<close> do
  with the port they are given.
\<close>

definition digit_val :: "char \<Rightarrow> nat" where
  "digit_val c = of_char c - 48"

definition port_number :: "string \<Rightarrow> nat" where
  "port_number s = foldl (\<lambda>a c. 10 * a + digit_val c) 0 s"

text \<open>TCP ports are 16-bit: the valid external ports are 1 to 65535.\<close>

definition valid_port :: "nat \<Rightarrow> bool" where
  "valid_port p = (1 \<le> p \<and> p \<le> 65535)"

subsection \<open>Jenkinsfile, lines 45 and 46\<close>

text \<open>
  \<^verbatim>\<open>def containerName = "nodejs-test-${BUILD_NUMBER}"\<close>
  \<^verbatim>\<open>def testPort = "90${BUILD_NUMBER}"\<close>
\<close>

definition containerName :: "nat \<Rightarrow> string" where
  "containerName BUILD_NUMBER = ''nodejs-test-'' @ decimal BUILD_NUMBER"

definition testPort :: "nat \<Rightarrow> string" where
  "testPort BUILD_NUMBER = ''90'' @ decimal BUILD_NUMBER"

text \<open>
  The listing of the pipeline in README.md (line 112) shows another derivation:
  \<^verbatim>\<open>def testPort = "909${BUILD_NUMBER % 100}"\<close>
\<close>

definition readme_testPort :: "nat \<Rightarrow> string" where
  "readme_testPort BUILD_NUMBER = ''909'' @ decimal (BUILD_NUMBER mod 100)"


section \<open>The execution host: shell commands and their effects\<close>

text \<open>What the single HTTP request of the health check meets.\<close>

datatype probe = ConnectionFailed | Status nat

text \<open>
  The shell scripts of the \<open>sh\<close> steps. Commands whose effect the pipeline relies on have a
  constructor of their own; every other command line is \<open>External\<close>.
\<close>

datatype command =
    External string
  | Curl_f string
  | DockerRun string string string
  | DockerStop string
  | Pipe command command
  | OrExit command nat

text \<open>The text of each command as the Jenkinsfile writes it.\<close>

fun command_line :: "command \<Rightarrow> string" where
  "command_line (External s) = s"
| "command_line (Curl_f url) = ''curl -f '' @ url"
| "command_line (DockerRun port name img) =
     ''docker run --rm -d -p '' @ port @ '':8080 --name '' @ name @ '' '' @ img"
| "command_line (DockerStop name) = ''docker stop '' @ name"
| "command_line (Pipe a b) = command_line a @ '' | '' @ command_line b"
| "command_line (OrExit a k) = command_line a @ '' || exit '' @ decimal k"

text \<open>
  The world outside the pipeline: the exit status of each external command line, the answer
  met by an HTTP GET to a URL, and the Jenkins credentials store.
\<close>

record world =
  exit_status :: "string \<Rightarrow> nat"
  http_get :: "string \<Rightarrow> probe"
  credentials :: "string \<Rightarrow> (string \<times> string) option"

text \<open>
  \<open>curl -f URL\<close> issues one GET. It exits with 7 when it cannot connect, with 22 when the
  server answers with a status of 400 or above (the meaning of \<open>-f\<close>), and with 0 otherwise.
\<close>

definition curl_f :: "probe \<Rightarrow> nat" where
  "curl_f p = (case p of ConnectionFailed \<Rightarrow> 7 | Status c \<Rightarrow> if 400 \<le> c then 22 else 0)"

text \<open>
  The host is the set of names of the containers that \<open>docker run\<close> has started and no
  \<open>docker stop\<close> has stopped. A container started with \<open>--rm\<close> is removed when it is
  stopped. \<open>exec\<close> gives the exit status of a command and the host afterwards:
  \<open>a | b\<close> exits as \<open>b\<close> does, \<open>a || exit k\<close> exits with 0 when \<open>a\<close> does and with \<open>k\<close> otherwise.
\<close>

type_synonym host = "string set"

fun exec :: "world \<Rightarrow> command \<Rightarrow> host \<Rightarrow> nat \<times> host" where
  "exec w (External s) h = (exit_status w s, h)"
| "exec w (Curl_f url) h = (curl_f (http_get w url), h)"
| "exec w (DockerRun port name img) h =
     (let code = exit_status w (command_line (DockerRun port name img))
      in (code, if code = 0 then insert name h else h))"
| "exec w (DockerStop name) h = (if name \<in> h then (0, h - {name}) else (1, h))"
| "exec w (Pipe a b) h = (case exec w a h of (_, h') \<Rightarrow> exec w b h')"
| "exec w (OrExit a k) h = (case exec w a h of (code, h') \<Rightarrow> (if code = 0 then 0 else k, h'))"

text \<open>The URLs a command sends an HTTP GET to.\<close>

fun http_requests :: "command \<Rightarrow> string list" where
  "http_requests (Curl_f url) = [url]"
| "http_requests (Pipe a b) = http_requests a @ http_requests b"
| "http_requests (OrExit a k) = http_requests a"
| "http_requests _ = []"


section \<open>Pipeline steps\<close>

text \<open>
  A step runs against the world and the host and gives an outcome, the host afterwards and
  the events it logged. A failing step throws: the steps after it in the enclosing blocks do
  not run.
\<close>

datatype outcome = Success | Failure

datatype event =
    StageEntered string
  | Echoed string
  | Ran command nat
  | CredentialsMissing string
  | PostAlways

type_synonym steps = "world \<Rightarrow> host \<Rightarrow> outcome \<times> host \<times> event list"

definition result_of :: "outcome \<times> host \<times> event list \<Rightarrow> outcome" where
  "result_of r = fst r"

definition host_of :: "outcome \<times> host \<times> event list \<Rightarrow> host" where
  "host_of r = fst (snd r)"

definition log_of :: "outcome \<times> host \<times> event list \<Rightarrow> event list" where
  "log_of r = snd (snd r)"

definition echo :: "string \<Rightarrow> steps" where
  "echo s w h = (Success, h, [Echoed s])"

text \<open>The \<open>sh\<close> step fails when its script exits with a non-zero status.\<close>

definition sh :: "command \<Rightarrow> steps" where
  "sh c w h = (case exec w c h of (code, h') \<Rightarrow>
     (if code = 0 then Success else Failure, h', [Ran c code]))"

fun steps_block :: "steps list \<Rightarrow> steps" where
  "steps_block [] w h = (Success, h, [])"
| "steps_block (s # ss) w h =
     (case s w h of
        (Failure, h', ev) \<Rightarrow> (Failure, h', ev)
      | (Success, h', ev) \<Rightarrow>
          (case steps_block ss w h' of (r, h'', ev') \<Rightarrow> (r, h'', ev @ ev')))"

text \<open>
  \<open>withCredentials\<close> binds the user name and the password stored under an identifier and
  runs its body with them; it fails when the store has no such entry.
\<close>

definition withCredentials :: "string \<Rightarrow> (string \<Rightarrow> string \<Rightarrow> steps) \<Rightarrow> steps" where
  "withCredentials credentialsId body w h =
     (case credentials w credentialsId of
        None \<Rightarrow> (Failure, h, [CredentialsMissing credentialsId])
      | Some (user, pass) \<Rightarrow> body user pass w h)"

definition stage :: "string \<Rightarrow> steps list \<Rightarrow> steps" where
  "stage name body w h =
     (case steps_block body w h of (r, h', ev) \<Rightarrow> (r, h', StageEntered name # ev))"

text \<open>Reading a log: the commands that ran, the stages entered, the HTTP requests sent.\<close>

fun commands_run :: "event list \<Rightarrow> command list" where
  "commands_run [] = []"
| "commands_run (Ran c code # es) = c # commands_run es"
| "commands_run (e # es) = commands_run es"

fun stages_entered :: "event list \<Rightarrow> string list" where
  "stages_entered [] = []"
| "stages_entered (StageEntered name # es) = name # stages_entered es"
| "stages_entered (e # es) = stages_entered es"

definition requests_sent :: "event list \<Rightarrow> string list" where
  "requests_sent es = concat (map http_requests (commands_run es))"


section \<open>The Jenkinsfile\<close>

definition DOCKERHUB_CREDENTIALS_ID :: string where
  "DOCKERHUB_CREDENTIALS_ID = ''dockerhub-credentials''"

definition DOCKERHUB_USERNAME :: string where
  "DOCKERHUB_USERNAME = ''adityajareda''"

definition DOCKER_IMAGE_NAME :: string where
  "DOCKER_IMAGE_NAME = ''nodejs-demo-app''"

text \<open>\<^verbatim>\<open>${DOCKERHUB_USERNAME}/${DOCKER_IMAGE_NAME}:latest\<close>\<close>

definition image :: string where
  "image = DOCKERHUB_USERNAME @ ''/'' @ DOCKER_IMAGE_NAME @ '':latest''"

definition npm_ci :: command where
  "npm_ci = External ''npm ci --only=production''"

definition npm_test :: command where
  "npm_test = External ''npm test''"

definition docker_build :: command where
  "docker_build = External (''docker build -t '' @ image @ '' .'')"

definition docker_login :: "string \<Rightarrow> string \<Rightarrow> command" where
  "docker_login DOCKER_USER DOCKER_PASS =
     Pipe (External (''echo '' @ DOCKER_PASS))
          (External (''docker login -u '' @ DOCKER_USER @ '' --password-stdin''))"

definition docker_push :: command where
  "docker_push = External (''docker push '' @ image)"

definition docker_run :: "nat \<Rightarrow> command" where
  "docker_run BUILD_NUMBER = DockerRun (testPort BUILD_NUMBER) (containerName BUILD_NUMBER) image"

definition sleep_5 :: command where
  "sleep_5 = External ''sleep 5''"

definition probe_url :: "nat \<Rightarrow> string" where
  "probe_url BUILD_NUMBER = ''http://localhost:'' @ testPort BUILD_NUMBER"

definition curl_probe :: "nat \<Rightarrow> command" where
  "curl_probe BUILD_NUMBER = OrExit (Curl_f (probe_url BUILD_NUMBER)) 1"

definition docker_stop :: "nat \<Rightarrow> command" where
  "docker_stop BUILD_NUMBER = DockerStop (containerName BUILD_NUMBER)"

definition docker_logout :: command where
  "docker_logout = External ''docker logout''"

definition install_dependencies :: steps where
  "install_dependencies = stage ''Install Dependencies''
     [echo ''Installing Node.js dependencies ...'',
      sh npm_ci]"

definition run_tests :: steps where
  "run_tests = stage ''Run Tests''
     [echo ''Running tests...'',
      sh npm_test]"

definition build_docker_image :: steps where
  "build_docker_image = stage ''Build Docker Image''
     [echo ''Building the Docker image...'',
      sh docker_build]"

definition push_to_docker_hub :: steps where
  "push_to_docker_hub = stage ''Push to Docker Hub''
     [echo ''Pushing image to Docker Hub...'',
      withCredentials DOCKERHUB_CREDENTIALS_ID (\<lambda>DOCKER_USER DOCKER_PASS.
        steps_block
          [sh (docker_login DOCKER_USER DOCKER_PASS),
           sh docker_push])]"

definition deploy_and_test :: "nat \<Rightarrow> steps" where
  "deploy_and_test BUILD_NUMBER = stage ''Deploy and Test''
     [echo (''Deploying test container: '' @ containerName BUILD_NUMBER
              @ '' on port '' @ testPort BUILD_NUMBER),
      sh (docker_run BUILD_NUMBER),
      echo ''Pausing for 5 seconds to allow the application to start...'',
      sh sleep_5,
      echo ''Testing application endpoint...'',
      sh (curl_probe BUILD_NUMBER),
      echo ''Test successful! Stopping container...'',
      sh (docker_stop BUILD_NUMBER)]"

definition stage_names :: "string list" where
  "stage_names = [''Install Dependencies'', ''Run Tests'', ''Build Docker Image'',
     ''Push to Docker Hub'', ''Deploy and Test'']"

definition pipeline_stages :: "nat \<Rightarrow> steps" where
  "pipeline_stages BUILD_NUMBER = steps_block
     [install_dependencies,
      run_tests,
      build_docker_image,
      push_to_docker_hub,
      deploy_and_test BUILD_NUMBER]"

definition post_always :: steps where
  "post_always = steps_block
     [echo ''Pipeline finished. Cleaning up...'',
      sh docker_logout]"

text \<open>
  A run: the stages, then the \<open>post { always }\<close> section whatever the stages gave. The run
  succeeds when both did.
\<close>

definition pipeline :: "nat \<Rightarrow> steps" where
  "pipeline BUILD_NUMBER w h =
     (case pipeline_stages BUILD_NUMBER w h of (r, h', ev) \<Rightarrow>
        (case post_always w h' of (r', h'', ev') \<Rightarrow>
           (if r = Success \<and> r' = Success then Success else Failure,
            h'', ev @ PostAlways # ev')))"

text \<open>
  The install, test, build and push steps all exit with 0 (the credentials being bound).
\<close>

definition build_and_push_succeed :: "world \<Rightarrow> bool" where
  "build_and_push_succeed w =
     (exit_status w ''npm ci --only=production'' = 0
      \<and> exit_status w ''npm test'' = 0
      \<and> exit_status w (''docker build -t '' @ image @ '' .'') = 0
      \<and> (case credentials w DOCKERHUB_CREDENTIALS_ID of
            None \<Rightarrow> False
          | Some (user, pass) \<Rightarrow>
              exit_status w (''docker login -u '' @ user @ '' --password-stdin'') = 0
              \<and> exit_status w (''docker push '' @ image) = 0))"

text \<open>The container of a run starts and the fixed delay elapses: the probe is reached.\<close>

definition container_started :: "world \<Rightarrow> nat \<Rightarrow> bool" where
  "container_started w BUILD_NUMBER =
     (exit_status w (command_line (docker_run BUILD_NUMBER)) = 0
      \<and> exit_status w ''sleep 5'' = 0)"


text \<open>
  Fail-fast: a step has failed when its command exits with a non-zero status or its
  credentials are missing, and a log is fail-fast when nothing follows a failed step.
  \<open>stages_part\<close> is the part of the log of a run that comes before the
  \<open>post { always }\<close> section.
\<close>

fun failed_event :: "event \<Rightarrow> bool" where
  "failed_event (Ran c code) = (code \<noteq> 0)"
| "failed_event (CredentialsMissing cid) = True"
| "failed_event e = False"

fun fail_fast :: "event list \<Rightarrow> bool" where
  "fail_fast [] = True"
| "fail_fast (e # es) = (if failed_event e then es = [] else fail_fast es)"

definition stages_part :: "event list \<Rightarrow> event list" where
  "stages_part es = takeWhile (\<lambda>e. e \<noteq> PostAlways) es"

text \<open>
  The position, in the declared sequence of stages, of the first stage among the first four
  with a failing step.
\<close>

definition first_failing_stage :: "world \<Rightarrow> nat" where
  "first_failing_stage w =
     (if exit_status w ''npm ci --only=production'' \<noteq> 0 then 1
      else if exit_status w ''npm test'' \<noteq> 0 then 2
      else if exit_status w (''docker build -t '' @ image @ '' .'') \<noteq> 0 then 3
      else 4)"


section \<open>app.js\<close>

text \<open>
  The Express application: one route, registered with \<open>app.get('/', ...)\<close>, and a server
  listening on \<open>PORT\<close>. The handler is the code of app.js; \<open>res.send\<close>, the freshness check
  behind \<open>req.fresh\<close> and the routing are those of Express 4, as far as they decide the
  status and the body of an answer.
\<close>

datatype http_method = GET | HEAD | POST | PUT | DELETE | PATCH | OPTIONS

fun method_name :: "http_method \<Rightarrow> string" where
  "method_name GET = ''GET''"
| "method_name HEAD = ''HEAD''"
| "method_name POST = ''POST''"
| "method_name PUT = ''PUT''"
| "method_name DELETE = ''DELETE''"
| "method_name PATCH = ''PATCH''"
| "method_name OPTIONS = ''OPTIONS''"

text \<open>
  A request as Node hands it to the application: the names of its headers are in lower case.
\<close>

record request =
  req_method :: http_method
  req_path :: string
  req_query :: string
  req_headers :: "(string \<times> string) list"
  req_body :: string

text \<open>
  The response object \<open>res\<close> while the application works on it. It knows its request
  (\<open>res.req\<close>) and the application's ETag function (the setting \<open>etag fn\<close>); its status starts
  at 200; \<open>ended\<close> is the payload written when the response was ended. Of the headers only
  \<open>ETag\<close> and \<open>Allow\<close> are kept: no response of this application has a \<open>Last-Modified\<close>.
\<close>

record res =
  res_req :: request
  etag_fn :: "string \<Rightarrow> string option"
  statusCode :: nat
  res_etag :: "string option"
  res_allow :: "string option"
  ended :: "string option"

definition new_res :: "(string \<Rightarrow> string option) \<Rightarrow> request \<Rightarrow> res" where
  "new_res etagFn req =
     \<lparr>res_req = req, etag_fn = etagFn, statusCode = 200, res_etag = None, res_allow = None,
      ended = None\<rparr>"

text \<open>The answer on the wire.\<close>

record response =
  resp_status :: nat
  resp_etag :: "string option"
  resp_allow :: "string option"
  resp_body :: string

definition wire :: "res \<Rightarrow> response" where
  "wire r =
     \<lparr>resp_status = statusCode r, resp_etag = res_etag r, resp_allow = res_allow r,
      resp_body = (case ended r of None \<Rightarrow> [] | Some payload \<Rightarrow> payload)\<rparr>"

subsection \<open>The freshness check\<close>

text \<open>A header that is absent or empty is falsy in JavaScript.\<close>

definition truthy :: "string option \<Rightarrow> bool" where
  "truthy v = (case v of None \<Rightarrow> False | Some s \<Rightarrow> s \<noteq> [])"

fun split_commas :: "string \<Rightarrow> string list" where
  "split_commas [] = [[]]"
| "split_commas (c # cs) =
     (if c = CHR '','' then [] # split_commas cs
      else (case split_commas cs of [] \<Rightarrow> [[c]] | p # ps \<Rightarrow> (c # p) # ps))"

definition trim :: "(char \<Rightarrow> bool) \<Rightarrow> string \<Rightarrow> string" where
  "trim blank s = rev (dropWhile blank (rev (dropWhile blank s)))"

text \<open>The characters below 256 that the regular expression class \<open>\s\<close> matches.\<close>

definition is_space :: "char \<Rightarrow> bool" where
  "is_space c = (of_char c \<in> {9, 10, 11, 12, 13, 32, 160 :: nat})"

text \<open>
  \<^verbatim>\<open>/(?:^|,)\s*?no-cache\s*?(?:,|$)/\<close> finds a match when one of the comma-separated
  parts of the header is \<open>no-cache\<close> between white space.
\<close>

definition no_cache :: "string option \<Rightarrow> bool" where
  "no_cache cacheControl =
     (case cacheControl of
        None \<Rightarrow> False
      | Some s \<Rightarrow> s \<noteq> [] \<and> list_ex (\<lambda>part. trim is_space part = ''no-cache'') (split_commas s))"

text \<open>\<open>parseTokenList\<close>: the comma-separated parts, without the spaces around them.\<close>

definition parseTokenList :: "string \<Rightarrow> string list" where
  "parseTokenList str = map (trim (\<lambda>c. c = CHR '' '')) (split_commas str)"

definition etag_matches :: "string \<Rightarrow> string \<Rightarrow> bool" where
  "etag_matches etag m = (m = etag \<or> m = ''W/'' @ etag \<or> ''W/'' @ m = etag)"

definition etag_stale :: "string \<Rightarrow> string option \<Rightarrow> bool" where
  "etag_stale noneMatch etag =
     (case etag of
        None \<Rightarrow> True
      | Some e \<Rightarrow> e = [] \<or> \<not> list_ex (etag_matches e) (parseTokenList noneMatch))"

text \<open>
  \<open>fresh(reqHeaders, resHeaders)\<close>, for a response without \<open>Last-Modified\<close>: a request with
  \<open>If-Modified-Since\<close> is then stale.
\<close>

definition fresh :: "(string \<times> string) list \<Rightarrow> string option \<Rightarrow> bool" where
  "fresh reqHeaders etag =
     (let modifiedSince = map_of reqHeaders ''if-modified-since'';
          noneMatch = map_of reqHeaders ''if-none-match'';
          cacheControl = map_of reqHeaders ''cache-control''
      in if \<not> truthy modifiedSince \<and> \<not> truthy noneMatch then False
         else if no_cache cacheControl then False
         else if (case noneMatch of
                    None \<Rightarrow> False
                  | Some nm \<Rightarrow> nm \<noteq> [] \<and> nm \<noteq> ''*'' \<and> etag_stale nm etag) then False
         else \<not> truthy modifiedSince)"

text \<open>\<open>req.fresh\<close>: only GET and HEAD, and only for a status 2xx or 304.\<close>

definition req_fresh :: "res \<Rightarrow> bool" where
  "req_fresh r =
     (let method = req_method (res_req r); status = statusCode r
      in if method \<noteq> GET \<and> method \<noteq> HEAD then False
         else if (200 \<le> status \<and> status < 300) \<or> status = 304
              then fresh (req_headers (res_req r)) (res_etag r)
         else False)"

subsection \<open>res.send\<close>

text \<open>
  \<open>res.send(chunk)\<close> sets the \<open>ETag\<close> of the payload unless there is one, turns the status
  into 304 when the request is fresh, drops the payload for 204 and 304, and ends the
  response, without payload for a HEAD request.
\<close>

definition send :: "string \<Rightarrow> res \<Rightarrow> res" where
  "send chunk r =
     (let r1 = (if truthy (res_etag r) then r
                else (case etag_fn r chunk of
                        None \<Rightarrow> r
                      | Some etag \<Rightarrow> if etag = [] then r else r\<lparr>res_etag := Some etag\<rparr>));
          r2 = (if req_fresh r1 then r1\<lparr>statusCode := 304\<rparr> else r1);
          payload = (if statusCode r2 = 204 \<or> statusCode r2 = 304 then [] else chunk)
      in if req_method (res_req r2) = HEAD then r2\<lparr>ended := Some []\<rparr>
         else r2\<lparr>ended := Some payload\<rparr>)"

subsection \<open>The application\<close>

definition PORT :: nat where
  "PORT = 8080"

text \<open>\<^verbatim>\<open>(req, res) => { res.send('Hello World!'); }\<close>\<close>

definition root_handler :: "request \<Rightarrow> res \<Rightarrow> res" where
  "root_handler req res = send ''Hello World!'' res"

type_synonym route = "http_method \<times> string \<times> (request \<Rightarrow> res \<Rightarrow> res)"

definition app :: "route list" where
  "app = [(GET, ''/'', root_handler)]"

text \<open>
  A route handles the requests of its method, and a GET route those of HEAD too. The first
  route with the path of the request that handles its method answers it.
\<close>

definition handles_method :: "http_method \<Rightarrow> http_method \<Rightarrow> bool" where
  "handles_method routeMethod method =
     (method = routeMethod \<or> (method = HEAD \<and> routeMethod = GET))"

fun find_route :: "route list \<Rightarrow> request \<Rightarrow> (request \<Rightarrow> res \<Rightarrow> res) option" where
  "find_route [] req = None"
| "find_route ((m, p, handler) # routes) req =
     (if req_path req = p \<and> handles_method m (req_method req) then Some handler
      else find_route routes req)"

text \<open>
  An OPTIONS request that no route handles is answered by Express with the methods of the
  routes on its path, in the \<open>Allow\<close> header and in the body.
\<close>

fun route_options :: "route list \<Rightarrow> string \<Rightarrow> string list" where
  "route_options [] path = []"
| "route_options ((m, p, handler) # routes) path =
     (if p = path then (if m = GET then [''GET'', ''HEAD''] else [method_name m]) else [])
       @ route_options routes path"

fun join_commas :: "string list \<Rightarrow> string" where
  "join_commas [] = []"
| "join_commas [x] = x"
| "join_commas (x # y # ys) = x @ '','' @ join_commas (y # ys)"

text \<open>
  Any other request gets the 404 of the final handler; of its error page only the message
  is kept.
\<close>

definition not_found :: "request \<Rightarrow> response" where
  "not_found req =
     \<lparr>resp_status = 404, resp_etag = None, resp_allow = None,
      resp_body = (if req_method req = HEAD then []
                   else ''Cannot '' @ method_name (req_method req) @ '' '' @ req_path req)\<rparr>"

definition handle :: "(string \<Rightarrow> string option) \<Rightarrow> request \<Rightarrow> response" where
  "handle etagFn req =
     (case find_route app req of
        Some handler \<Rightarrow> wire (handler req (new_res etagFn req))
      | None \<Rightarrow>
          (let options = remdups (route_options app (req_path req))
           in if req_method req = OPTIONS \<and> options \<noteq> []
              then wire (send (join_commas options)
                     ((new_res etagFn req)\<lparr>res_allow := Some (join_commas options)\<rparr>))
              else not_found req))"

text \<open>A request is conditional when it carries \<open>If-None-Match\<close> or \<open>If-Modified-Since\<close>.\<close>

definition conditional :: "request \<Rightarrow> bool" where
  "conditional req =
     (truthy (map_of (req_headers req) ''if-none-match'')
      \<or> truthy (map_of (req_headers req) ''if-modified-since''))"

record server =
  listening_port :: nat
  console :: "string list"

text \<open>\<^verbatim>\<open>app.listen(PORT, () => { console.log(`Server is running on http://localhost:${PORT}`); })\<close>\<close>

definition listen :: server where
  "listen = \<lparr>listening_port = PORT,
              console = [''Server is running on http://localhost:'' @ decimal PORT]\<rparr>"


section \<open>Sample inputs\<close>

text \<open>
  Worlds and requests on which the results below are run: a world where every command exits
  with 0 and the probe is answered with 200, and variants of it.
\<close>

definition healthy_world :: world where
  "healthy_world = \<lparr>exit_status = (\<lambda>line. 0), http_get = (\<lambda>url. Status 200),
     credentials = (\<lambda>cid. Some (''jenkins'', ''token''))\<rparr>"

definition refusing_world :: world where
  "refusing_world = healthy_world\<lparr>http_get := (\<lambda>url. ConnectionFailed)\<rparr>"

definition erroring_world :: world where
  "erroring_world = healthy_world\<lparr>http_get := (\<lambda>url. Status 500)\<rparr>"

definition redirecting_world :: world where
  "redirecting_world = healthy_world\<lparr>http_get := (\<lambda>url. Status 301)\<rparr>"

definition failing_tests_world :: world where
  "failing_tests_world =
     healthy_world\<lparr>exit_status := (\<lambda>line. if line = ''npm test'' then 1 else 0)\<rparr>"

definition plain_request :: request where
  "plain_request = \<lparr>req_method = GET, req_path = ''/'', req_query = [], req_headers = [],
     req_body = []\<rparr>"

definition loaded_request :: request where
  "loaded_request = \<lparr>req_method = GET, req_path = ''/'', req_query = ''name=x'',
     req_headers = [(''user-agent'', ''curl/8.5.0''), (''accept'', ''text/html'')],
     req_body = ''payload''\<rparr>"

definition conditional_request :: request where
  "conditional_request = \<lparr>req_method = GET, req_path = ''/'', req_query = [],
     req_headers = [(''if-none-match'', ''*'')], req_body = []\<rparr>"

text \<open>A stand-in for the application's ETag function, whose hash is not computed here.\<close>

definition sample_etag_fn :: "string \<Rightarrow> string option" where
  "sample_etag_fn payload = Some (''W/'' @ decimal (length payload) @ ''-sample'')"


section \<open>Decimal strings and port numbers\<close>

lemma digit_val_digit_char: "d < 10 \<Longrightarrow> digit_val (digit_char d) = d"
proof -
  assume "d < 10"
  then have "d = 0 \<or> d = 1 \<or> d = 2 \<or> d = 3 \<or> d = 4 \<or> d = 5 \<or> d = 6 \<or> d = 7
      \<or> d = 8 \<or> d = 9"
    by arith
  then show ?thesis
    by (elim disjE) (simp_all add: digit_val_def digit_char_def)
qed

lemma port_number_snoc: "port_number (s @ [c]) = 10 * port_number s + digit_val c"
  by (simp add: port_number_def)

lemma port_number_append:
  "port_number (xs @ ys) = port_number xs * 10 ^ length ys + port_number ys"
proof (induction ys rule: rev_induct)
  case Nil
  show ?case by (simp add: port_number_def)
next
  case (snoc y ys)
  have "port_number (xs @ ys @ [y]) = 10 * port_number (xs @ ys) + digit_val y"
    using port_number_snoc [of "xs @ ys" y] by simp
  then show ?case
    using snoc.IH by (simp add: port_number_snoc algebra_simps)
qed

lemma port_number_decimal: "port_number (decimal n) = n"
proof (induction n rule: decimal.induct)
  case (1 n)
  show ?case
  proof (cases "n < 10")
    case True
    then show ?thesis
      by (simp add: decimal.simps [of n] port_number_def digit_val_digit_char)
  next
    case False
    then have "port_number (decimal n) = 10 * (n div 10) + n mod 10"
      using "1.IH" by (simp add: decimal.simps [of n] port_number_snoc digit_val_digit_char)
    then show ?thesis by simp
  qed
qed

lemma decimal_inj: "decimal a = decimal b \<Longrightarrow> a = b"
  using port_number_decimal by metis

lemma decimal_upper: "n < 10 ^ length (decimal n)"
proof (induction n rule: decimal.induct)
  case (1 n)
  show ?case
  proof (cases "n < 10")
    case True
    then show ?thesis by (simp add: decimal.simps [of n])
  next
    case False
    then have "n div 10 < 10 ^ length (decimal (n div 10))"
      using "1.IH" by simp
    then have "n < 10 * 10 ^ length (decimal (n div 10))"
      by simp
    then show ?thesis using False by (simp add: decimal.simps [of n])
  qed
qed

lemma length_decimal_ge3: "100 \<le> n \<Longrightarrow> 3 \<le> length (decimal n)"
proof -
  assume h: "100 \<le> n"
  have a: "decimal n = decimal (n div 10) @ [digit_char (n mod 10)]"
    using h by (simp add: decimal.simps [of n])
  have "\<not> n div 10 < 10" using h by arith
  then have b: "decimal (n div 10) = decimal (n div 10 div 10) @ [digit_char (n div 10 mod 10)]"
    by (simp add: decimal.simps [of "n div 10"])
  have c: "1 \<le> length (decimal (n div 10 div 10))"
    by (simp add: decimal.simps [of "n div 10 div 10"])
  show ?thesis using a b c by simp
qed

lemma port_number_testPort: "port_number (testPort n) = 90 * 10 ^ length (decimal n) + n"
proof -
  have "port_number ''90'' = 90" by (simp add: port_number_def digit_val_def)
  then show ?thesis
    unfolding testPort_def port_number_append [of "''90''" "decimal n"] port_number_decimal
    by simp
qed

lemma port_number_testPort_inj:
  assumes "port_number (testPort a) = port_number (testPort b)"
  shows "a = b"
proof -
  let ?la = "length (decimal a)" and ?lb = "length (decimal b)"
  have eq: "90 * 10 ^ ?la + a = 90 * 10 ^ ?lb + b"
    using assms by (simp only: port_number_testPort)
  have ua: "a < 10 ^ ?la" and ub: "b < 10 ^ ?lb"
    by (rule decimal_upper)+
  have "?la = ?lb"
  proof (rule ccontr)
    assume "?la \<noteq> ?lb"
    then consider "?la < ?lb" | "?lb < ?la" by linarith
    then show False
    proof cases
      case 1
      then have "(10::nat) * 10 ^ ?la \<le> 10 ^ ?lb"
        using power_increasing [of "Suc ?la" ?lb "10::nat"] by simp
      then show False using eq ua by linarith
    next
      case 2
      then have "(10::nat) * 10 ^ ?lb \<le> 10 ^ ?la"
        using power_increasing [of "Suc ?lb" ?la "10::nat"] by simp
      then show False using eq ub by linarith
    qed
  qed
  then show ?thesis using eq by simp
qed

lemma decimal_numeral:
  "decimal (numeral k) = (if (numeral k :: nat) < 10 then [digit_char (numeral k)]
     else decimal (numeral k div 10) @ [digit_char (numeral k mod 10)])"
  by (rule decimal.simps)

lemma decimal_0: "decimal 0 = ''0''"
  by (simp add: decimal.simps [of 0] digit_char_def)

lemma decimal_1: "decimal (Suc 0) = ''1''"
  by (simp add: decimal.simps [of "Suc 0"] digit_char_def)

lemmas decimal_eval = decimal_numeral decimal_0 decimal_1 digit_char_def

text \<open>The command lines of build 7, as the shell receives them.\<close>

lemma command_line_build_7:
  "command_line (docker_run 7) =
     ''docker run --rm -d -p 907:8080 --name nodejs-test-7 adityajareda/nodejs-demo-app:latest''"
  "command_line (curl_probe 7) = ''curl -f http://localhost:907 || exit 1''"
  "command_line (docker_stop 7) = ''docker stop nodejs-test-7''"
  by (simp_all add: docker_run_def curl_probe_def docker_stop_def probe_url_def testPort_def
      containerName_def image_def DOCKERHUB_USERNAME_def DOCKER_IMAGE_NAME_def decimal_eval)

lemma length_decimal_small:
  "n < 10 \<Longrightarrow> length (decimal n) = 1"
  "10 \<le> n \<Longrightarrow> n < 100 \<Longrightarrow> length (decimal n) = 2"
proof -
  show one: "length (decimal n) = 1" if "n < 10" for n
    using that by (simp add: decimal.simps [of n])
  assume "10 \<le> n" and "n < 100"
  then have "n div 10 < 10" and "\<not> n < 10" by simp_all
  then show "length (decimal n) = 2"
    using one [of "n div 10"] by (simp add: decimal.simps [of n])
qed

text \<open>The Jenkinsfile's port is a valid one for the builds 0 to 99 and for no other.\<close>

lemma testPort_valid_iff: "valid_port (port_number (testPort n)) \<longleftrightarrow> n < 100"
proof (cases "n < 100")
  case True
  then consider "n < 10" | "10 \<le> n" "n < 100" by linarith
  then have "port_number (testPort n) \<le> 9099 \<and> 1 \<le> port_number (testPort n)"
    by cases (simp_all add: port_number_testPort length_decimal_small)
  then show ?thesis using True by (simp add: valid_port_def)
next
  case False
  then have "3 \<le> length (decimal n)"
    by (intro length_decimal_ge3) simp
  then have "(10::nat) ^ 3 \<le> 10 ^ length (decimal n)"
    by (rule power_increasing) simp
  then have "65535 < port_number (testPort n)"
    by (simp add: port_number_testPort)
  then show ?thesis using False by (simp add: valid_port_def)
qed

text \<open>
  The derivation listed in README.md leaves the range too, when the remainder has two digits.
\<close>

lemma readme_testPort_build_10:
  "readme_testPort 10 = ''90910'' \<and> \<not> valid_port (port_number (readme_testPort 10))"
proof -
  have r: "readme_testPort 10 = ''90910''"
    by (simp add: readme_testPort_def decimal_eval)
  have "port_number ''90910'' = 90910"
    by (simp add: port_number_def digit_val_def)
  then show ?thesis by (simp add: r valid_port_def)
qed

text \<open>
  C1: the port of a run is meant to be a fixed prefix followed by the build number modulo 100,
  and to stay a valid port for every build number. The Jenkinsfile interpolates the whole
  build number instead: build 100 gets the port 90100, above 65535, where the derivation
  listed in README.md gives 9090.
\<close>

theorem testPort_build_100:
  "testPort 100 = ''90100''
   \<and> port_number (testPort 100) = 90100
   \<and> \<not> valid_port (port_number (testPort 100))
   \<and> readme_testPort 100 = ''9090''"
proof -
  have t: "testPort 100 = ''90100''"
    by (simp add: testPort_def decimal_eval)
  have p: "port_number ''90100'' = 90100"
    by (simp add: port_number_def digit_val_def)
  have r: "readme_testPort 100 = ''9090''"
    by (simp add: readme_testPort_def decimal_eval)
  show ?thesis by (simp add: t p r valid_port_def)
qed

text \<open>
  C2: two runs whose build numbers differ, and differ modulo 100, get different container
  names and different external ports (as strings and as numbers).
\<close>

theorem distinct_runs_do_not_collide:
  assumes "a \<noteq> b" and "a mod 100 \<noteq> b mod 100"
  shows "containerName a \<noteq> containerName b
    \<and> testPort a \<noteq> testPort b
    \<and> port_number (testPort a) \<noteq> port_number (testPort b)"
proof -
  have "decimal a \<noteq> decimal b"
    using assms(1) decimal_inj by blast
  then have "containerName a \<noteq> containerName b" and "testPort a \<noteq> testPort b"
    by (simp_all add: containerName_def testPort_def)
  moreover have "port_number (testPort a) \<noteq> port_number (testPort b)"
    using assms(1) port_number_testPort_inj by blast
  ultimately show ?thesis by simp
qed

theorem distinct_runs_do_not_collide_witness:
  "(7::nat) \<noteq> 42 \<and> (7::nat) mod 100 \<noteq> 42 mod 100
   \<and> containerName 7 \<noteq> containerName 42
   \<and> testPort 7 \<noteq> testPort 42
   \<and> port_number (testPort 7) \<noteq> port_number (testPort 42)"
proof -
  have h1: "(7::nat) \<noteq> 42" by simp
  have h2: "(7::nat) mod 100 \<noteq> 42 mod 100" by simp
  show ?thesis using h1 h2 distinct_runs_do_not_collide [OF h1 h2] by simp
qed

text \<open>
  C9: the Jenkinsfile applies no modulo. The port is the prefix 90 followed by the whole build
  number in decimal, so from build 100 on it differs from the port of the build number
  reduced modulo 100, exceeds 65535 and is not a valid TCP port.
\<close>

theorem testPort_has_no_modulo:
  assumes "100 \<le> n"
  shows "testPort n = ''90'' @ decimal n
    \<and> testPort n \<noteq> testPort (n mod 100)
    \<and> 65535 < port_number (testPort n)
    \<and> \<not> valid_port (port_number (testPort n))"
proof -
  have "n mod 100 \<noteq> n"
    using assms by (simp add: mod_eq_self_iff_div_eq_0)
  then have "decimal n \<noteq> decimal (n mod 100)"
    using decimal_inj by metis
  then have differ: "testPort n \<noteq> testPort (n mod 100)"
    by (simp add: testPort_def)
  have "3 \<le> length (decimal n)"
    using assms by (rule length_decimal_ge3)
  then have "(10::nat) ^ 3 \<le> 10 ^ length (decimal n)"
    by (rule power_increasing) simp
  then have big: "65535 < port_number (testPort n)"
    by (simp add: port_number_testPort)
  then have "\<not> valid_port (port_number (testPort n))"
    by (simp add: valid_port_def)
  with differ big show ?thesis by (simp add: testPort_def)
qed

theorem testPort_has_no_modulo_witness:
  "(100::nat) \<le> 100 \<and> testPort 100 \<noteq> testPort (100 mod 100)
   \<and> 65535 < port_number (testPort 100)"
proof -
  have h: "(100::nat) \<le> 100" by simp
  show ?thesis using h testPort_has_no_modulo [OF h] by blast
qed


section \<open>Running the stages\<close>

lemma sh_External: "sh (External s) w h =
  (if exit_status w s = 0 then Success else Failure, h, [Ran (External s) (exit_status w s)])"
  by (simp add: sh_def)

lemma install_dependencies_run:
  "install_dependencies w h =
     (if exit_status w ''npm ci --only=production'' = 0 then Success else Failure, h,
      [StageEntered ''Install Dependencies'', Echoed ''Installing Node.js dependencies ...'',
       Ran npm_ci (exit_status w ''npm ci --only=production'')])"
  by (simp add: install_dependencies_def stage_def echo_def sh_def npm_ci_def)

lemma run_tests_run:
  "run_tests w h =
     (if exit_status w ''npm test'' = 0 then Success else Failure, h,
      [StageEntered ''Run Tests'', Echoed ''Running tests...'',
       Ran npm_test (exit_status w ''npm test'')])"
  by (simp add: run_tests_def stage_def echo_def sh_def npm_test_def)

lemma build_docker_image_run:
  "build_docker_image w h =
     (if exit_status w (''docker build -t '' @ image @ '' .'') = 0 then Success else Failure, h,
      [StageEntered ''Build Docker Image'', Echoed ''Building the Docker image...'',
       Ran docker_build (exit_status w (''docker build -t '' @ image @ '' .''))])"
  by (simp add: build_docker_image_def stage_def echo_def sh_def docker_build_def)

lemma push_to_docker_hub_run:
  "push_to_docker_hub w h =
     (case credentials w DOCKERHUB_CREDENTIALS_ID of
        None \<Rightarrow> (Failure, h, [StageEntered ''Push to Docker Hub'',
                  Echoed ''Pushing image to Docker Hub...'',
                  CredentialsMissing DOCKERHUB_CREDENTIALS_ID])
      | Some (user, pass) \<Rightarrow>
          (if exit_status w (''docker login -u '' @ user @ '' --password-stdin'') \<noteq> 0
           then (Failure, h, [StageEntered ''Push to Docker Hub'',
                  Echoed ''Pushing image to Docker Hub...'',
                  Ran (docker_login user pass)
                    (exit_status w (''docker login -u '' @ user @ '' --password-stdin''))])
           else (if exit_status w (''docker push '' @ image) = 0 then Success else Failure, h,
                 [StageEntered ''Push to Docker Hub'',
                  Echoed ''Pushing image to Docker Hub...'',
                  Ran (docker_login user pass) 0,
                  Ran docker_push (exit_status w (''docker push '' @ image))])))"
  by (simp add: push_to_docker_hub_def stage_def echo_def sh_def docker_login_def
      docker_push_def withCredentials_def split: option.split)

lemma deploy_and_test_run:
  "deploy_and_test n w h =
     (let started = Echoed (''Deploying test container: '' @ containerName n
                      @ '' on port '' @ testPort n);
          run_code = exit_status w (command_line (docker_run n));
          sleep_code = exit_status w ''sleep 5'';
          curl_code = curl_f (http_get w (probe_url n))
      in if run_code \<noteq> 0
         then (Failure, h, [StageEntered ''Deploy and Test'', started, Ran (docker_run n) run_code])
         else if sleep_code \<noteq> 0
         then (Failure, insert (containerName n) h,
               [StageEntered ''Deploy and Test'', started, Ran (docker_run n) 0,
                Echoed ''Pausing for 5 seconds to allow the application to start...'',
                Ran sleep_5 sleep_code])
         else if curl_code \<noteq> 0
         then (Failure, insert (containerName n) h,
               [StageEntered ''Deploy and Test'', started, Ran (docker_run n) 0,
                Echoed ''Pausing for 5 seconds to allow the application to start...'',
                Ran sleep_5 0,
                Echoed ''Testing application endpoint...'',
                Ran (curl_probe n) 1])
         else (Success, h - {containerName n},
               [StageEntered ''Deploy and Test'', started, Ran (docker_run n) 0,
                Echoed ''Pausing for 5 seconds to allow the application to start...'',
                Ran sleep_5 0,
                Echoed ''Testing application endpoint...'',
                Ran (curl_probe n) 0,
                Echoed ''Test successful! Stopping container...'',
                Ran (docker_stop n) 0]))"
  by (simp add: deploy_and_test_def stage_def echo_def sh_def docker_run_def sleep_5_def
      curl_probe_def docker_stop_def Let_def)

lemma post_always_run:
  "post_always w h =
     (if exit_status w ''docker logout'' = 0 then Success else Failure, h,
      [Echoed ''Pipeline finished. Cleaning up...'',
       Ran docker_logout (exit_status w ''docker logout'')])"
  by (simp add: post_always_def echo_def sh_def docker_logout_def)

lemmas early_stages_run =
  install_dependencies_run run_tests_run build_docker_image_run push_to_docker_hub_run

lemma pipeline_stages_blocked:
  assumes "\<not> build_and_push_succeed w"
  shows "result_of (pipeline_stages n w h) = Failure
    \<and> host_of (pipeline_stages n w h) = h
    \<and> ''Deploy and Test'' \<notin> set (stages_entered (log_of (pipeline_stages n w h)))
    \<and> set (commands_run (log_of (pipeline_stages n w h)))
          \<subseteq> {npm_ci, npm_test, docker_build, docker_push} \<union> {c. \<exists>u p. c = docker_login u p}
    \<and> prefix (stages_entered (log_of (pipeline_stages n w h))) stage_names"
  using assms
  by (auto simp add: pipeline_stages_def early_stages_run build_and_push_succeed_def
      result_of_def host_of_def log_of_def stage_names_def split: option.splits)

lemma pipeline_stages_reached:
  assumes "build_and_push_succeed w"
  shows "\<exists>u p. pipeline_stages n w h =
    (result_of (deploy_and_test n w h), host_of (deploy_and_test n w h),
     [StageEntered ''Install Dependencies'', Echoed ''Installing Node.js dependencies ...'',
      Ran npm_ci 0,
      StageEntered ''Run Tests'', Echoed ''Running tests...'', Ran npm_test 0,
      StageEntered ''Build Docker Image'', Echoed ''Building the Docker image...'',
      Ran docker_build 0,
      StageEntered ''Push to Docker Hub'', Echoed ''Pushing image to Docker Hub...'',
      Ran (docker_login u p) 0, Ran docker_push 0] @ log_of (deploy_and_test n w h))"
  using assms
  by (auto simp add: pipeline_stages_def early_stages_run build_and_push_succeed_def
      result_of_def host_of_def log_of_def split: option.splits prod.splits outcome.splits)

lemma pipeline_run:
  "pipeline n w h =
     (if result_of (pipeline_stages n w h) = Success \<and> exit_status w ''docker logout'' = 0
      then Success else Failure,
      host_of (pipeline_stages n w h),
      log_of (pipeline_stages n w h) @
        [PostAlways, Echoed ''Pipeline finished. Cleaning up...'',
         Ran docker_logout (exit_status w ''docker logout'')])"
  by (simp add: pipeline_def post_always_run result_of_def host_of_def log_of_def
      split: prod.splits)

lemma commands_run_append: "commands_run (xs @ ys) = commands_run xs @ commands_run ys"
  by (induction xs rule: commands_run.induct) simp_all

lemma stages_entered_append: "stages_entered (xs @ ys) = stages_entered xs @ stages_entered ys"
  by (induction xs rule: stages_entered.induct) simp_all

lemma requests_sent_append: "requests_sent (xs @ ys) = requests_sent xs @ requests_sent ys"
  by (simp add: requests_sent_def commands_run_append)

lemma early_commands_no_request:
  "set cs \<subseteq> {npm_ci, npm_test, docker_build, docker_push} \<union> {c. \<exists>u p. c = docker_login u p}
    \<Longrightarrow> concat (map http_requests cs) = []"
  by (induction cs)
     (auto simp add: npm_ci_def npm_test_def docker_build_def docker_push_def docker_login_def)

lemma deploy_and_test_probe_failed:
  assumes "container_started w n" and "curl_f (http_get w (probe_url n)) \<noteq> 0"
  shows "deploy_and_test n w h =
    (Failure, insert (containerName n) h,
     [StageEntered ''Deploy and Test'',
      Echoed (''Deploying test container: '' @ containerName n @ '' on port '' @ testPort n),
      Ran (docker_run n) 0,
      Echoed ''Pausing for 5 seconds to allow the application to start...'',
      Ran sleep_5 0,
      Echoed ''Testing application endpoint...'',
      Ran (curl_probe n) 1])"
  using assms by (simp add: deploy_and_test_run container_started_def)

lemma deploy_and_test_probe_passed:
  assumes "container_started w n" and "curl_f (http_get w (probe_url n)) = 0"
  shows "deploy_and_test n w h =
    (Success, h - {containerName n},
     [StageEntered ''Deploy and Test'',
      Echoed (''Deploying test container: '' @ containerName n @ '' on port '' @ testPort n),
      Ran (docker_run n) 0,
      Echoed ''Pausing for 5 seconds to allow the application to start...'',
      Ran sleep_5 0,
      Echoed ''Testing application endpoint...'',
      Ran (curl_probe n) 0,
      Echoed ''Test successful! Stopping container...'',
      Ran (docker_stop n) 0])"
  using assms by (simp add: deploy_and_test_run container_started_def)

lemma docker_stop_distinct:
  "docker_stop n \<noteq> docker_run n" "docker_stop n \<noteq> sleep_5" "docker_stop n \<noteq> curl_probe n"
  "docker_stop n \<noteq> npm_ci" "docker_stop n \<noteq> npm_test" "docker_stop n \<noteq> docker_build"
  "docker_stop n \<noteq> docker_login u p" "docker_stop n \<noteq> docker_push"
  "docker_stop n \<noteq> docker_logout"
  by (simp_all add: docker_stop_def docker_run_def sleep_5_def curl_probe_def npm_ci_def
      npm_test_def docker_build_def docker_login_def docker_push_def docker_logout_def)

lemma healthy_exit_status [simp]: "exit_status healthy_world line = 0"
  by (simp add: healthy_world_def)

lemma healthy_credentials [simp]: "credentials healthy_world cid = Some (''jenkins'', ''token'')"
  by (simp add: healthy_world_def)

text \<open>
  C3: when the run reaches the health check and the check fails, the Deploy and Test stage
  fails, the run fails, \<open>docker stop\<close> is never executed although \<open>docker run\<close> was, and the
  test container is still on the host when the run is over.
\<close>

theorem probe_failure_leaves_container:
  assumes "build_and_push_succeed w"
    and "container_started w n"
    and "curl_f (http_get w (probe_url n)) \<noteq> 0"
  shows "result_of (deploy_and_test n w h) = Failure
    \<and> result_of (pipeline n w h) = Failure
    \<and> docker_run n \<in> set (commands_run (log_of (pipeline n w h)))
    \<and> docker_stop n \<notin> set (commands_run (log_of (pipeline n w h)))
    \<and> containerName n \<in> host_of (pipeline n w h)"
proof -
  note stage = deploy_and_test_probe_failed [OF assms(2,3), of h]
  obtain u p where stages: "pipeline_stages n w h =
    (result_of (deploy_and_test n w h), host_of (deploy_and_test n w h),
     [StageEntered ''Install Dependencies'', Echoed ''Installing Node.js dependencies ...'',
      Ran npm_ci 0,
      StageEntered ''Run Tests'', Echoed ''Running tests...'', Ran npm_test 0,
      StageEntered ''Build Docker Image'', Echoed ''Building the Docker image...'',
      Ran docker_build 0,
      StageEntered ''Push to Docker Hub'', Echoed ''Pushing image to Docker Hub...'',
      Ran (docker_login u p) 0, Ran docker_push 0] @ log_of (deploy_and_test n w h))"
    using pipeline_stages_reached [OF assms(1), of n h] by blast
  have 1: "result_of (deploy_and_test n w h) = Failure"
    by (simp add: stage result_of_def)
  have 2: "result_of (pipeline n w h) = Failure"
    by (simp add: pipeline_run stages stage result_of_def)
  have cmds: "commands_run (log_of (pipeline n w h)) =
      [npm_ci, npm_test, docker_build, docker_login u p, docker_push,
       docker_run n, sleep_5, curl_probe n, docker_logout]"
    by (simp add: pipeline_run stages stage log_of_def)
  have 3: "docker_run n \<in> set (commands_run (log_of (pipeline n w h)))"
    by (simp add: cmds)
  have 4: "docker_stop n \<notin> set (commands_run (log_of (pipeline n w h)))"
    by (simp add: cmds docker_stop_distinct)
  have 5: "containerName n \<in> host_of (pipeline n w h)"
    by (simp add: pipeline_run stages stage host_of_def)
  from 1 2 3 4 5 show ?thesis by simp
qed

theorem probe_failure_leaves_container_witness:
  "build_and_push_succeed refusing_world
   \<and> container_started refusing_world 7
   \<and> curl_f (http_get refusing_world (probe_url 7)) \<noteq> 0
   \<and> result_of (pipeline 7 refusing_world {}) = Failure
   \<and> docker_stop 7 \<notin> set (commands_run (log_of (pipeline 7 refusing_world {})))
   \<and> containerName 7 \<in> host_of (pipeline 7 refusing_world {})"
proof -
  have h1: "build_and_push_succeed refusing_world"
    by (simp add: build_and_push_succeed_def refusing_world_def)
  have h2: "container_started refusing_world 7"
    by (simp add: container_started_def refusing_world_def)
  have h3: "curl_f (http_get refusing_world (probe_url 7)) \<noteq> 0"
    by (simp add: curl_f_def refusing_world_def)
  show ?thesis
    using h1 h2 h3 probe_failure_leaves_container [OF h1 h2 h3, of "{}"] by blast
qed

text \<open>
  C4: when the container has started, the delay has elapsed and the probe on the root
  endpoint is answered with status 200, the Deploy and Test stage succeeds, its last command
  is \<open>docker stop\<close>, and the test container is no longer on the host.
\<close>

theorem healthy_probe_stops_container:
  assumes "container_started w n"
    and "http_get w (probe_url n) = Status 200"
  shows "result_of (deploy_and_test n w h) = Success
    \<and> last (commands_run (log_of (deploy_and_test n w h))) = docker_stop n
    \<and> host_of (deploy_and_test n w h) = h - {containerName n}
    \<and> containerName n \<notin> host_of (deploy_and_test n w h)"
proof -
  have "curl_f (http_get w (probe_url n)) = 0"
    using assms(2) by (simp add: curl_f_def)
  note stage = deploy_and_test_probe_passed [OF assms(1) this, of h]
  show ?thesis
    by (simp add: stage result_of_def host_of_def log_of_def)
qed

theorem healthy_probe_stops_container_witness:
  "container_started healthy_world 7
   \<and> http_get healthy_world (probe_url 7) = Status 200
   \<and> result_of (deploy_and_test 7 healthy_world {}) = Success
   \<and> containerName 7 \<notin> host_of (deploy_and_test 7 healthy_world {})"
proof -
  have h1: "container_started healthy_world 7"
    by (simp add: container_started_def)
  have h2: "http_get healthy_world (probe_url 7) = Status 200"
    by (simp add: healthy_world_def)
  show ?thesis
    using h1 h2 healthy_probe_stops_container [OF h1 h2, of "{}"] by blast
qed

text \<open>
  C5: once the container has started and the delay has elapsed, the Deploy and Test stage
  sends exactly one HTTP GET, to the root endpoint of localhost on the derived port; a
  connection failure or an answer with status 400 or above makes the stage fail.
\<close>

theorem probe_once_and_fail_from_400:
  assumes "container_started w n"
  shows "requests_sent (log_of (deploy_and_test n w h)) = [''http://localhost:'' @ testPort n]
    \<and> (http_get w (''http://localhost:'' @ testPort n) = ConnectionFailed
          \<longrightarrow> result_of (deploy_and_test n w h) = Failure)
    \<and> (\<forall>c. 400 \<le> c \<and> http_get w (''http://localhost:'' @ testPort n) = Status c
          \<longrightarrow> result_of (deploy_and_test n w h) = Failure)"
proof (cases "curl_f (http_get w (probe_url n)) = 0")
  case True
  note stage = deploy_and_test_probe_passed [OF assms True, of h]
  have "requests_sent (log_of (deploy_and_test n w h)) = [probe_url n]"
    by (simp add: stage log_of_def requests_sent_def docker_run_def sleep_5_def curl_probe_def
        docker_stop_def)
  moreover have "http_get w (probe_url n) \<noteq> ConnectionFailed"
    using True by (auto simp add: curl_f_def)
  moreover have "\<forall>c. 400 \<le> c \<longrightarrow> http_get w (probe_url n) \<noteq> Status c"
    using True by (auto simp add: curl_f_def)
  ultimately show ?thesis by (auto simp add: probe_url_def)
next
  case False
  note stage = deploy_and_test_probe_failed [OF assms False, of h]
  have "requests_sent (log_of (deploy_and_test n w h)) = [probe_url n]"
    by (simp add: stage log_of_def requests_sent_def docker_run_def sleep_5_def curl_probe_def)
  moreover have "result_of (deploy_and_test n w h) = Failure"
    by (simp add: stage result_of_def)
  ultimately show ?thesis by (simp add: probe_url_def)
qed

theorem probe_once_and_fail_from_400_witness:
  "container_started erroring_world 7
   \<and> requests_sent (log_of (deploy_and_test 7 erroring_world {})) = [''http://localhost:'' @ testPort 7]
   \<and> (400::nat) \<le> 500
   \<and> http_get erroring_world (''http://localhost:'' @ testPort 7) = Status 500
   \<and> result_of (deploy_and_test 7 erroring_world {}) = Failure
   \<and> container_started refusing_world 7
   \<and> http_get refusing_world (''http://localhost:'' @ testPort 7) = ConnectionFailed
   \<and> result_of (deploy_and_test 7 refusing_world {}) = Failure"
proof -
  have h1: "container_started erroring_world 7"
    by (simp add: container_started_def erroring_world_def)
  have h2: "http_get erroring_world (''http://localhost:'' @ testPort 7) = Status 500"
    by (simp add: erroring_world_def)
  have h3: "container_started refusing_world 7"
    by (simp add: container_started_def refusing_world_def)
  have h4: "http_get refusing_world (''http://localhost:'' @ testPort 7) = ConnectionFailed"
    by (simp add: refusing_world_def)
  show ?thesis
    using h1 h2 h3 h4 probe_once_and_fail_from_400 [OF h1, of "{}"]
      probe_once_and_fail_from_400 [OF h3, of "{}"]
    by auto
qed

text \<open>
  An answer with status 301 is not a success status, yet \<open>curl -f\<close> exits with 0 on it and
  the stage succeeds.
\<close>

theorem redirect_passes_probe:
  "container_started redirecting_world 7
   \<and> http_get redirecting_world (probe_url 7) = Status 301
   \<and> result_of (deploy_and_test 7 redirecting_world {}) = Success"
proof -
  have h1: "container_started redirecting_world 7"
    by (simp add: container_started_def redirecting_world_def)
  have h2: "http_get redirecting_world (probe_url 7) = Status 301"
    by (simp add: redirecting_world_def)
  have "curl_f (http_get redirecting_world (probe_url 7)) = 0"
    by (simp add: h2 curl_f_def)
  from deploy_and_test_probe_passed [OF h1 this, of "{}"] h1 h2 show ?thesis
    by (simp add: result_of_def)
qed

lemma stages_part_append:
  "PostAlways \<notin> set xs \<Longrightarrow> stages_part (xs @ PostAlways # ys) = xs"
  by (induction xs) (auto simp add: stages_part_def)

lemma pipeline_stages_fail_fast:
  assumes "\<not> build_and_push_succeed w"
  shows "fail_fast (log_of (pipeline_stages n w h))
    \<and> failed_event (last (log_of (pipeline_stages n w h)))
    \<and> PostAlways \<notin> set (log_of (pipeline_stages n w h))
    \<and> stages_entered (log_of (pipeline_stages n w h)) = take (first_failing_stage w) stage_names"
  using assms
  by (auto simp add: pipeline_stages_def early_stages_run build_and_push_succeed_def
      log_of_def stage_names_def first_failing_stage_def split: option.splits)

lemma deploy_and_test_log:
  "stages_entered (log_of (deploy_and_test n w h)) = [''Deploy and Test'']
   \<and> fail_fast (log_of (deploy_and_test n w h))
   \<and> PostAlways \<notin> set (log_of (deploy_and_test n w h))"
  by (simp add: deploy_and_test_run Let_def log_of_def)

lemma pipeline_stages_reached_log:
  assumes "build_and_push_succeed w"
  shows "fail_fast (log_of (pipeline_stages n w h))
    \<and> PostAlways \<notin> set (log_of (pipeline_stages n w h))
    \<and> stages_entered (log_of (pipeline_stages n w h)) = stage_names"
proof -
  obtain u p where stages: "pipeline_stages n w h =
    (result_of (deploy_and_test n w h), host_of (deploy_and_test n w h),
     [StageEntered ''Install Dependencies'', Echoed ''Installing Node.js dependencies ...'',
      Ran npm_ci 0,
      StageEntered ''Run Tests'', Echoed ''Running tests...'', Ran npm_test 0,
      StageEntered ''Build Docker Image'', Echoed ''Building the Docker image...'',
      Ran docker_build 0,
      StageEntered ''Push to Docker Hub'', Echoed ''Pushing image to Docker Hub...'',
      Ran (docker_login u p) 0, Ran docker_push 0] @ log_of (deploy_and_test n w h))"
    using pipeline_stages_reached [OF assms, of n h] by blast
  show ?thesis
    using deploy_and_test_log [of n w h]
    by (simp add: stages log_of_def [of "(a, b, c)" for a b c] stage_names_def)
qed

text \<open>
  C6: in every run the stages run in their declared order and nothing of the stages follows
  a failed step. When the install, test, build, login or push command exits with a non-zero
  status (or the credentials are missing), the run fails, the stages entered are exactly
  those up to the first stage with a failing step, whose failed step is the last event of the
  stages, the Deploy and Test stage is never entered, its container is never started and no
  probe is sent.
\<close>

theorem failed_build_step_skips_probe:
  "fail_fast (stages_part (log_of (pipeline n w h)))
   \<and> prefix (stages_entered (log_of (pipeline n w h))) stage_names
   \<and> (\<not> build_and_push_succeed w \<longrightarrow>
        result_of (pipeline n w h) = Failure
        \<and> failed_event (last (stages_part (log_of (pipeline n w h))))
        \<and> stages_entered (log_of (pipeline n w h)) = take (first_failing_stage w) stage_names
        \<and> ''Deploy and Test'' \<notin> set (stages_entered (log_of (pipeline n w h)))
        \<and> docker_run n \<notin> set (commands_run (log_of (pipeline n w h)))
        \<and> requests_sent (log_of (pipeline n w h)) = [])"
proof -
  let ?stages = "pipeline_stages n w h"
  have log: "log_of (pipeline n w h) = log_of ?stages @
      PostAlways # [Echoed ''Pipeline finished. Cleaning up...'',
       Ran docker_logout (exit_status w ''docker logout'')]"
    by (simp add: pipeline_run log_of_def)
  have entered: "stages_entered (log_of (pipeline n w h)) = stages_entered (log_of ?stages)"
    by (simp add: log stages_entered_append)
  have cmds: "commands_run (log_of (pipeline n w h)) = commands_run (log_of ?stages) @ [docker_logout]"
    by (simp add: log commands_run_append)
  have no_post: "PostAlways \<notin> set (log_of ?stages)"
    using pipeline_stages_fail_fast [of w n h] pipeline_stages_reached_log [of w n h] by blast
  have part: "stages_part (log_of (pipeline n w h)) = log_of ?stages"
    unfolding log using no_post by (rule stages_part_append)
  have general: "fail_fast (stages_part (log_of (pipeline n w h)))
      \<and> prefix (stages_entered (log_of (pipeline n w h))) stage_names"
  proof (cases "build_and_push_succeed w")
    case True
    then show ?thesis
      using pipeline_stages_reached_log [of w n h] by (simp add: part entered)
  next
    case False
    then show ?thesis
      using pipeline_stages_fail_fast [of w n h] pipeline_stages_blocked [of w n h]
      by (simp add: part entered)
  qed
  have blocked_case: "result_of (pipeline n w h) = Failure
        \<and> failed_event (last (stages_part (log_of (pipeline n w h))))
        \<and> stages_entered (log_of (pipeline n w h)) = take (first_failing_stage w) stage_names
        \<and> ''Deploy and Test'' \<notin> set (stages_entered (log_of (pipeline n w h)))
        \<and> docker_run n \<notin> set (commands_run (log_of (pipeline n w h)))
        \<and> requests_sent (log_of (pipeline n w h)) = []"
    if blocked_by: "\<not> build_and_push_succeed w"
  proof -
    note blocked = pipeline_stages_blocked [OF blocked_by, of n h]
    note fast = pipeline_stages_fail_fast [OF blocked_by, of n h]
    have 1: "result_of (pipeline n w h) = Failure"
      using blocked by (simp add: pipeline_run result_of_def)
    have 2: "failed_event (last (stages_part (log_of (pipeline n w h))))"
      using fast by (simp add: part)
    have 3: "stages_entered (log_of (pipeline n w h)) = take (first_failing_stage w) stage_names"
      using fast by (simp add: entered)
    have 4: "''Deploy and Test'' \<notin> set (stages_entered (log_of (pipeline n w h)))"
      using blocked by (simp add: entered)
    have 5: "docker_run n \<notin> set (commands_run (log_of (pipeline n w h)))"
      using blocked
      by (auto simp add: cmds docker_run_def docker_logout_def npm_ci_def npm_test_def
          docker_build_def docker_push_def docker_login_def)
    have "requests_sent (log_of ?stages) = []"
      unfolding requests_sent_def using blocked by (intro early_commands_no_request) simp
    then have 6: "requests_sent (log_of (pipeline n w h)) = []"
      by (simp add: log requests_sent_append) (simp add: requests_sent_def docker_logout_def)
    from 1 2 3 4 5 6 show ?thesis by simp
  qed
  from general blocked_case show ?thesis by blast
qed

theorem failed_build_step_skips_probe_witness:
  "\<not> build_and_push_succeed failing_tests_world
   \<and> result_of (pipeline 7 failing_tests_world {}) = Failure
   \<and> stages_entered (log_of (pipeline 7 failing_tests_world {}))
       = [''Install Dependencies'', ''Run Tests'']
   \<and> ''Deploy and Test'' \<notin> set (stages_entered (log_of (pipeline 7 failing_tests_world {})))
   \<and> docker_run 7 \<notin> set (commands_run (log_of (pipeline 7 failing_tests_world {})))"
proof -
  have h: "\<not> build_and_push_succeed failing_tests_world"
    by (simp add: build_and_push_succeed_def failing_tests_world_def)
  have "first_failing_stage failing_tests_world = 2"
    by (simp add: first_failing_stage_def failing_tests_world_def)
  then have "take (first_failing_stage failing_tests_world) stage_names
      = [''Install Dependencies'', ''Run Tests'']"
    by (simp add: stage_names_def)
  then show ?thesis
    using h failed_build_step_skips_probe [of 7 failing_tests_world "{}"] by simp
qed

text \<open>
  C7: in every run, whatever the stages gave, the log of the run is the log of the stages
  followed by the \<open>post { always }\<close> section, and \<open>docker logout\<close> is the last command run.
\<close>

theorem cleanup_always_runs:
  "log_of (pipeline n w h) = log_of (pipeline_stages n w h) @
     [PostAlways, Echoed ''Pipeline finished. Cleaning up...'',
      Ran docker_logout (exit_status w ''docker logout'')]
   \<and> last (commands_run (log_of (pipeline n w h))) = docker_logout"
  by (simp add: pipeline_run log_of_def commands_run_append)

theorem cleanup_always_runs_witness:
  "last (commands_run (log_of (pipeline 7 failing_tests_world {}))) = docker_logout
   \<and> last (commands_run (log_of (pipeline 7 healthy_world {}))) = docker_logout"
  using cleanup_always_runs [of 7 failing_tests_world "{}"]
    cleanup_always_runs [of 7 healthy_world "{}"] by blast


section \<open>The HTTP service\<close>

lemma not_conditional_not_fresh: "\<not> conditional req \<Longrightarrow> \<not> fresh (req_headers req) etag"
  by (simp add: conditional_def fresh_def)

lemma send_unconditional:
  assumes "\<not> conditional (res_req r)" and "statusCode r = 200"
  shows "statusCode (send chunk r) = 200"
    and "ended (send chunk r) = Some (if req_method (res_req r) = HEAD then [] else chunk)"
    and "res_etag (send chunk r) =
      (if truthy (res_etag r) then res_etag r
       else (case etag_fn r chunk of None \<Rightarrow> res_etag r
             | Some etag \<Rightarrow> if etag = [] then res_etag r else Some etag))"
    and "res_allow (send chunk r) = res_allow r"
  using assms not_conditional_not_fresh [of "res_req r"]
  by (auto simp add: send_def req_fresh_def Let_def split: option.splits)

lemma find_route_root:
  "req_path req = ''/'' \<Longrightarrow> req_method req = GET \<or> req_method req = HEAD
    \<Longrightarrow> find_route app req = Some root_handler"
  by (auto simp add: app_def handles_method_def)

lemma handle_unconditional_get:
  assumes "req_method req = GET" and "req_path req = ''/''" and "\<not> conditional req"
  shows "handle etagFn req =
    \<lparr>resp_status = 200,
     resp_etag = (case etagFn ''Hello World!'' of None \<Rightarrow> None
                  | Some etag \<Rightarrow> if etag = [] then None else Some etag),
     resp_allow = None, resp_body = ''Hello World!''\<rparr>"
proof -
  let ?r = "new_res etagFn req"
  have r: "\<not> conditional (res_req ?r)" "statusCode ?r = 200"
    using assms(3) by (simp_all add: new_res_def)
  note s = send_unconditional [OF r, of "''Hello World!''"]
  have "handle etagFn req = wire (send ''Hello World!'' ?r)"
    using assms(1,2) by (simp add: handle_def find_route_root root_handler_def)
  also have "\<dots> = \<lparr>resp_status = 200,
     resp_etag = (case etagFn ''Hello World!'' of None \<Rightarrow> None
                  | Some etag \<Rightarrow> if etag = [] then None else Some etag),
     resp_allow = None, resp_body = ''Hello World!''\<rparr>"
    by (simp only: wire_def s) (simp add: new_res_def truthy_def assms(1) split: option.splits)
  finally show ?thesis .
qed

text \<open>HEAD and OPTIONS on the root path.\<close>

lemma handle_unconditional_head:
  assumes "req_method req = HEAD" and "req_path req = ''/''" and "\<not> conditional req"
  shows "resp_status (handle etagFn req) = 200 \<and> resp_body (handle etagFn req) = []"
proof -
  let ?r = "new_res etagFn req"
  have r: "\<not> conditional (res_req ?r)" "statusCode ?r = 200"
    using assms(3) by (simp_all add: new_res_def)
  note s = send_unconditional [OF r, of "''Hello World!''"]
  have "handle etagFn req = wire (send ''Hello World!'' ?r)"
    using assms(1,2) by (simp add: handle_def find_route_root root_handler_def)
  moreover have "resp_status (wire (send ''Hello World!'' ?r)) = 200"
    by (simp add: wire_def s(1))
  moreover have "resp_body (wire (send ''Hello World!'' ?r)) = []"
    by (simp add: wire_def s(2)) (simp add: new_res_def assms(1))
  ultimately show ?thesis by simp
qed

lemma handle_options:
  assumes "req_method req = OPTIONS" and "req_path req = ''/''"
  shows "resp_status (handle etagFn req) = 200 \<and> resp_body (handle etagFn req) = ''GET,HEAD''
    \<and> resp_allow (handle etagFn req) = Some ''GET,HEAD''"
  using assms
  by (simp add: handle_def app_def handles_method_def send_def req_fresh_def new_res_def
      wire_def Let_def truthy_def split: option.splits)

lemma fresh_if_none_match_star: "fresh [(''if-none-match'', ''*'')] etag"
  by (simp add: fresh_def no_cache_def truthy_def)

lemma send_conditional_request:
  assumes "res_req r = conditional_request" and "statusCode r = 200"
  shows "statusCode (send chunk r) = 304" and "ended (send chunk r) = Some []"
    and "res_etag (send chunk r) =
      (if truthy (res_etag r) then res_etag r
       else (case etag_fn r chunk of None \<Rightarrow> res_etag r
             | Some etag \<Rightarrow> if etag = [] then res_etag r else Some etag))"
    and "res_allow (send chunk r) = res_allow r"
proof -
  have f: "req_fresh r'" if "res_req r' = conditional_request" "statusCode r' = 200" for r'
    using that fresh_if_none_match_star
    by (simp add: req_fresh_def conditional_request_def)
  have m: "req_method conditional_request = GET"
    by (simp add: conditional_request_def)
  show "statusCode (send chunk r) = 304" and "ended (send chunk r) = Some []"
    and "res_etag (send chunk r) =
      (if truthy (res_etag r) then res_etag r
       else (case etag_fn r chunk of None \<Rightarrow> res_etag r
             | Some etag \<Rightarrow> if etag = [] then res_etag r else Some etag))"
    and "res_allow (send chunk r) = res_allow r"
    using assms f m by (auto simp add: send_def Let_def split: option.splits)
qed

lemma handle_conditional_request:
  "handle etagFn conditional_request =
     \<lparr>resp_status = 304,
      resp_etag = (case etagFn ''Hello World!'' of None \<Rightarrow> None
                   | Some etag \<Rightarrow> if etag = [] then None else Some etag),
      resp_allow = None, resp_body = []\<rparr>"
proof -
  let ?r = "new_res etagFn conditional_request"
  have r: "res_req ?r = conditional_request" "statusCode ?r = 200"
    by (simp_all add: new_res_def)
  note s = send_conditional_request [OF r, of "''Hello World!''"]
  have "find_route app conditional_request = Some root_handler"
    by (simp add: app_def handles_method_def conditional_request_def)
  then have "handle etagFn conditional_request = wire (send ''Hello World!'' ?r)"
    by (simp add: handle_def root_handler_def)
  also have "\<dots> = \<lparr>resp_status = 304,
      resp_etag = (case etagFn ''Hello World!'' of None \<Rightarrow> None
                   | Some etag \<Rightarrow> if etag = [] then None else Some etag),
      resp_allow = None, resp_body = []\<rparr>"
    by (simp only: wire_def s) (simp add: new_res_def truthy_def split: option.splits)
  finally show ?thesis .
qed

text \<open>
  C8: every GET request on the path \<open>/\<close> that is not conditional is answered with status 200
  and the body \<open>Hello World!\<close>, and the server listens on port 8080.
\<close>

theorem unconditional_get_says_hello:
  assumes "req_method req = GET" and "req_path req = ''/''" and "\<not> conditional req"
  shows "resp_status (handle etagFn req) = 200
    \<and> resp_body (handle etagFn req) = ''Hello World!''
    \<and> listening_port listen = 8080"
  by (simp add: handle_unconditional_get [OF assms] listen_def PORT_def)

theorem unconditional_get_says_hello_witness:
  "req_method loaded_request = GET \<and> req_path loaded_request = ''/''
   \<and> \<not> conditional loaded_request
   \<and> resp_status (handle sample_etag_fn loaded_request) = 200
   \<and> resp_body (handle sample_etag_fn loaded_request) = ''Hello World!''"
proof -
  have h1: "req_method loaded_request = GET" by (simp add: loaded_request_def)
  have h2: "req_path loaded_request = ''/''" by (simp add: loaded_request_def)
  have h3: "\<not> conditional loaded_request"
    by (simp add: loaded_request_def conditional_def truthy_def)
  show ?thesis
    using h1 h2 h3 unconditional_get_says_hello [OF h1 h2 h3, of sample_etag_fn] by blast
qed

text \<open>
  A GET request on \<open>/\<close> with the header \<open>If-None-Match: *\<close> is answered with status 304 and
  no body.
\<close>

theorem conditional_get_not_modified:
  "req_method conditional_request = GET \<and> req_path conditional_request = ''/''
   \<and> resp_status (handle sample_etag_fn conditional_request) = 304
   \<and> resp_body (handle sample_etag_fn conditional_request) = []"
  by (simp add: handle_conditional_request) (simp add: conditional_request_def)

text \<open>
  C10: the root handler does not look at the request, and any two GET requests on \<open>/\<close> that
  are not conditional get the same response, whatever their query string, their other headers
  and their body.
\<close>

theorem unconditional_gets_answered_alike:
  assumes "req_method r1 = GET" and "req_path r1 = ''/''" and "\<not> conditional r1"
    and "req_method r2 = GET" and "req_path r2 = ''/''" and "\<not> conditional r2"
  shows "root_handler r1 res = root_handler r2 res \<and> handle etagFn r1 = handle etagFn r2"
  by (simp add: handle_unconditional_get [OF assms(1,2,3)]
      handle_unconditional_get [OF assms(4,5,6)] root_handler_def)

theorem unconditional_gets_answered_alike_witness:
  "plain_request \<noteq> loaded_request
   \<and> handle sample_etag_fn plain_request = handle sample_etag_fn loaded_request"
proof -
  have h1: "req_method plain_request = GET" and h2: "req_path plain_request = ''/''"
    and h3: "\<not> conditional plain_request"
    by (simp_all add: plain_request_def conditional_def truthy_def)
  have h4: "req_method loaded_request = GET" and h5: "req_path loaded_request = ''/''"
    and h6: "\<not> conditional loaded_request"
    by (simp_all add: loaded_request_def conditional_def truthy_def)
  have "plain_request \<noteq> loaded_request"
    by (simp add: plain_request_def loaded_request_def)
  then show ?thesis
    using unconditional_gets_answered_alike [OF h1 h2 h3 h4 h5 h6, of _ sample_etag_fn]
    by blast
qed

text \<open>
  Two GET requests on \<open>/\<close> that differ in one header only, \<open>If-None-Match\<close>, get different
  responses: 200 with the body, and 304 without.
\<close>

theorem header_changes_answer:
  "req_method plain_request = GET \<and> req_path plain_request = ''/''
   \<and> req_method conditional_request = GET \<and> req_path conditional_request = ''/''
   \<and> resp_status (handle sample_etag_fn plain_request) = 200
   \<and> resp_body (handle sample_etag_fn plain_request) = ''Hello World!''
   \<and> resp_status (handle sample_etag_fn conditional_request) = 304
   \<and> resp_body (handle sample_etag_fn conditional_request) = []
   \<and> handle sample_etag_fn plain_request \<noteq> handle sample_etag_fn conditional_request"
proof -
  have p: "req_method plain_request = GET" "req_path plain_request = ''/''"
    "\<not> conditional plain_request"
    by (simp_all add: plain_request_def conditional_def truthy_def)
  have c: "req_method conditional_request = GET" "req_path conditional_request = ''/''"
    by (simp_all add: conditional_request_def)
  show ?thesis
    by (simp add: handle_unconditional_get [OF p] handle_conditional_request p c)
qed

end
